theory Spec2Isabelle
  imports Complex_Main
begin

section \<open>Floating-point cells\<close>

text \<open>
  Every numeric column of the data frames handled by \<^verbatim>\<open>utils.py\<close> is a float64
  column. A cell is a finite number, one of the two infinities, or the missing-value
  marker NaN. Finite numbers are modelled as reals: rounding is not modelled, and the
  sign of zero is not modelled (a zero divisor is treated as \<open>+0.0\<close>).
\<close>

datatype fval = Num real | PInf | NInf | NaN

text \<open>\<^verbatim>\<open>cell > scalar\<close>: every comparison with NaN is false.\<close>

fun fgt :: "fval \<Rightarrow> real \<Rightarrow> bool" where
  "fgt (Num a) t = (t < a)"
| "fgt PInf t = True"
| "fgt NInf t = False"
| "fgt NaN t = False"

fun fneg :: "fval \<Rightarrow> fval" where
  "fneg (Num a) = Num (- a)"
| "fneg PInf = NInf"
| "fneg NInf = PInf"
| "fneg NaN = NaN"

fun fadd :: "fval \<Rightarrow> fval \<Rightarrow> fval" where
  "fadd (Num a) (Num b) = Num (a + b)"
| "fadd (Num a) PInf = PInf"
| "fadd (Num a) NInf = NInf"
| "fadd PInf (Num b) = PInf"
| "fadd PInf PInf = PInf"
| "fadd NInf (Num b) = NInf"
| "fadd NInf NInf = NInf"
| "fadd PInf NInf = NaN"
| "fadd NInf PInf = NaN"
| "fadd NaN y = NaN"
| "fadd x NaN = NaN"

definition fsub :: "fval \<Rightarrow> fval \<Rightarrow> fval" where
  "fsub x y = fadd x (fneg y)"

fun fmul :: "fval \<Rightarrow> fval \<Rightarrow> fval" where
  "fmul (Num a) (Num b) = Num (a * b)"
| "fmul (Num a) PInf = (if a = 0 then NaN else if 0 < a then PInf else NInf)"
| "fmul (Num a) NInf = (if a = 0 then NaN else if 0 < a then NInf else PInf)"
| "fmul PInf (Num b) = (if b = 0 then NaN else if 0 < b then PInf else NInf)"
| "fmul NInf (Num b) = (if b = 0 then NaN else if 0 < b then NInf else PInf)"
| "fmul PInf PInf = PInf"
| "fmul PInf NInf = NInf"
| "fmul NInf PInf = NInf"
| "fmul NInf NInf = PInf"
| "fmul NaN y = NaN"
| "fmul x NaN = NaN"

text \<open>
  Division never raises on a float64 column: a non-zero number over zero is an infinity,
  zero over zero is NaN.
\<close>

fun fdiv :: "fval \<Rightarrow> fval \<Rightarrow> fval" where
  "fdiv (Num a) (Num b) =
     (if b \<noteq> 0 then Num (a / b)
      else if a = 0 then NaN
      else if 0 < a then PInf else NInf)"
| "fdiv (Num a) PInf = Num 0"
| "fdiv (Num a) NInf = Num 0"
| "fdiv PInf (Num b) = (if 0 \<le> b then PInf else NInf)"
| "fdiv NInf (Num b) = (if 0 \<le> b then NInf else PInf)"
| "fdiv PInf PInf = NaN"
| "fdiv PInf NInf = NaN"
| "fdiv NInf PInf = NaN"
| "fdiv NInf NInf = NaN"
| "fdiv NaN y = NaN"
| "fdiv x NaN = NaN"

primrec fsum :: "fval list \<Rightarrow> fval" where
  "fsum [] = Num 0"
| "fsum (x # xs) = fadd x (fsum xs)"

text \<open>
  \<^verbatim>\<open>Series.mean()\<close> skips the NaN cells; with no cell left the mean is NaN.
\<close>

definition fmean :: "fval list \<Rightarrow> fval" where
  "fmean xs =
     (let obs = filter (\<lambda>v. v \<noteq> NaN) xs
      in if obs = [] then NaN else fdiv (fsum obs) (Num (real (length obs))))"

text \<open>
  The mean of a boolean column counts \<open>True\<close> as 1 and \<open>False\<close> as 0; a boolean
  column has no missing cell, so only the empty column gives NaN.
\<close>

definition bmean :: "bool list \<Rightarrow> fval" where
  "bmean bs =
     (if bs = [] then NaN
      else Num (real (length (filter (\<lambda>b. b) bs)) / real (length bs)))"

definition of_ints :: "int list \<Rightarrow> fval list" where
  "of_ints qs = map (\<lambda>q. Num (real_of_int q)) qs"

section \<open>The data frame of one symbol's history\<close>

text \<open>
  A data frame is a table of columns of one common length. \<open>Date\<close> (a day number)
  and the delivery percentage \<^verbatim>\<open>% Dly Qt to Traded Qty\<close> are always there; every
  other column is optional (\<open>None\<close>: the column is not in \<^verbatim>\<open>df.columns\<close>).
  The quantity columns hold integers and the close column holds finite prices. The
  \<open>Symbol\<close> column is left out: none of the functions modelled here reads it.
\<close>

record frame =
  Date :: "int list"
  Dly_Qt_to_Traded_Qty :: "fval list"
  Total_Traded_Quantity :: "int list option"
  Deliverable_Qty :: "int list option"
  Close :: "real list option"
  Volume_3M_Avg :: "fval list option"
  Volume_Ratio :: "fval list option"
  Delivery_to_Traded :: "fval list option"
  Avg_Volume :: "fval list option"
  Volume_Multiple :: "fval list option"
  High_Delivery :: "bool list option"
  Consecutive_Days :: "nat list option"
  Delivery_Change :: "fval list option"
  Increasing_Delivery :: "bool list option"
  Consecutive_Increases :: "nat list option"
  Price_Change_5D :: "fval list option"
  High_Delivery_Days :: "bool list option"

definition nrows :: "frame \<Rightarrow> nat" where
  "nrows df = length (Date df)"

definition col_ok :: "nat \<Rightarrow> 'a list option \<Rightarrow> bool" where
  "col_ok n c = (case c of None \<Rightarrow> True | Some xs \<Rightarrow> length xs = n)"

text \<open>A frame is rectangular: each column present has one cell per row.\<close>

definition rectangular :: "frame \<Rightarrow> bool" where
  "rectangular df =
     (let n = nrows df in
      length (Dly_Qt_to_Traded_Qty df) = n \<and>
      col_ok n (Total_Traded_Quantity df) \<and> col_ok n (Deliverable_Qty df) \<and>
      col_ok n (Close df) \<and> col_ok n (Volume_3M_Avg df) \<and>
      col_ok n (Volume_Ratio df) \<and> col_ok n (Delivery_to_Traded df) \<and>
      col_ok n (Avg_Volume df) \<and> col_ok n (Volume_Multiple df) \<and>
      col_ok n (High_Delivery df) \<and> col_ok n (Consecutive_Days df) \<and>
      col_ok n (Delivery_Change df) \<and> col_ok n (Increasing_Delivery df) \<and>
      col_ok n (Consecutive_Increases df) \<and> col_ok n (Price_Change_5D df) \<and>
      col_ok n (High_Delivery_Days df))"

section \<open>Column operations\<close>

text \<open>\<^verbatim>\<open>Series.shift()\<close>: every cell moves down one row; the first cell is missing.\<close>

definition shift :: "'a list \<Rightarrow> 'a option list" where
  "shift xs = take (length xs) (None # map Some xs)"

text \<open>\<^verbatim>\<open>s != s.shift()\<close>: a cell differs from a missing cell.\<close>

definition ne_shift :: "'a list \<Rightarrow> bool list" where
  "ne_shift xs = map2 (\<lambda>a b. Some a \<noteq> b) xs (shift xs)"

text \<open>\<^verbatim>\<open>cumsum()\<close> of a boolean column: the running number of \<open>True\<close> cells.\<close>

definition cumsum :: "bool list \<Rightarrow> nat list" where
  "cumsum bs = map (\<lambda>i. length (filter (\<lambda>b. b) (take (Suc i) bs))) [0..<length bs]"

text \<open>
  \<^verbatim>\<open>groupby(keys).cumcount()\<close>: the number of earlier rows that carry the same key.
\<close>

definition cumcount :: "'k list \<Rightarrow> nat list" where
  "cumcount ks =
     map (\<lambda>i. length (filter (\<lambda>j. ks ! j = ks ! i) [0..<i])) [0..<length ks]"

text \<open>\<^verbatim>\<open>Series.diff()\<close>: the cell minus the cell above; the first is NaN.\<close>

definition diff :: "fval list \<Rightarrow> fval list" where
  "diff xs = map2 (\<lambda>a b. case b of None \<Rightarrow> NaN | Some p \<Rightarrow> fsub a p) xs (shift xs)"

text \<open>
  The streak counter both streak columns share:
  \<^verbatim>\<open>s.groupby((s != s.shift()).cumsum()).cumcount() + 1\<close>.
\<close>

definition streaks :: "bool list \<Rightarrow> nat list" where
  "streaks s = map (\<lambda>c. c + 1) (cumcount (cumsum (ne_shift s)))"

section \<open>Pattern detector\<close>

definition detect_delivery_patterns :: "frame \<Rightarrow> real \<Rightarrow> frame" where
  "detect_delivery_patterns df threshold =
     (let high = map (\<lambda>v. fgt v threshold) (Dly_Qt_to_Traded_Qty df);
          df1 = df\<lparr>High_Delivery := Some high\<rparr>;
          df2 = df1\<lparr>Consecutive_Days := Some (streaks high)\<rparr>;
          change = diff (Dly_Qt_to_Traded_Qty df2);
          df3 = df2\<lparr>Delivery_Change := Some change\<rparr>;
          inc = map (\<lambda>v. fgt v 0) change;
          df4 = df3\<lparr>Increasing_Delivery := Some inc\<rparr>
      in df4\<lparr>Consecutive_Increases := Some (streaks inc)\<rparr>)"

section \<open>Volume analyzer\<close>

text \<open>
  \<^verbatim>\<open>rolling(window, min_periods).mean()\<close>: row \<open>i\<close> looks at the rows
  \<open>i - window + 1 .. i\<close> that exist, and is NaN when fewer than \<open>min_periods\<close> of
  their cells are numbers.
\<close>

definition rolling_mean :: "nat \<Rightarrow> nat \<Rightarrow> fval list \<Rightarrow> fval list" where
  "rolling_mean window min_periods xs =
     map (\<lambda>i. let obs = filter (\<lambda>v. v \<noteq> NaN) (drop (Suc i - window) (take (Suc i) xs))
              in if length obs < min_periods then NaN
                 else fdiv (fsum obs) (Num (real (length obs))))
         [0..<length xs]"

definition add_volume_analysis :: "frame \<Rightarrow> frame" where
  "add_volume_analysis df =
     (case (Total_Traded_Quantity df, Deliverable_Qty df) of
        (Some traded, Some deliverable) \<Rightarrow>
          (let avg3m = rolling_mean 90 1 (of_ints traded);
               df1 = df\<lparr>Volume_3M_Avg := Some avg3m\<rparr>;
               df2 = df1\<lparr>Volume_Ratio := Some (map2 fdiv (of_ints traded) avg3m)\<rparr>;
               df3 = df2\<lparr>Delivery_to_Traded :=
                       Some (map (\<lambda>r. fmul r (Num 100))
                               (map2 fdiv (of_ints deliverable) (of_ints traded)))\<rparr>;
               avg = replicate (nrows df3) (fmean (of_ints traded));
               df4 = df3\<lparr>Avg_Volume := Some avg\<rparr>
           in df4\<lparr>Volume_Multiple := Some (map2 fdiv (of_ints traded) avg)\<rparr>)
      | _ \<Rightarrow> df)"

section \<open>Signal detector\<close>

datatype error = KeyError | IndexError | ValueError

text \<open>
  \<^verbatim>\<open>df.iloc[idx]\<close>: the rows at the positions \<open>idx\<close>, in that order, of every column.
\<close>

definition take_cells :: "nat list \<Rightarrow> 'a list \<Rightarrow> 'a list" where
  "take_cells idx c = map (\<lambda>i. c ! i) idx"

definition take_rows :: "nat list \<Rightarrow> frame \<Rightarrow> frame" where
  "take_rows idx df =
     \<lparr>Date = take_cells idx (Date df),
      Dly_Qt_to_Traded_Qty = take_cells idx (Dly_Qt_to_Traded_Qty df),
      Total_Traded_Quantity = map_option (take_cells idx) (Total_Traded_Quantity df),
      Deliverable_Qty = map_option (take_cells idx) (Deliverable_Qty df),
      Close = map_option (take_cells idx) (Close df),
      Volume_3M_Avg = map_option (take_cells idx) (Volume_3M_Avg df),
      Volume_Ratio = map_option (take_cells idx) (Volume_Ratio df),
      Delivery_to_Traded = map_option (take_cells idx) (Delivery_to_Traded df),
      Avg_Volume = map_option (take_cells idx) (Avg_Volume df),
      Volume_Multiple = map_option (take_cells idx) (Volume_Multiple df),
      High_Delivery = map_option (take_cells idx) (High_Delivery df),
      Consecutive_Days = map_option (take_cells idx) (Consecutive_Days df),
      Delivery_Change = map_option (take_cells idx) (Delivery_Change df),
      Increasing_Delivery = map_option (take_cells idx) (Increasing_Delivery df),
      Consecutive_Increases = map_option (take_cells idx) (Consecutive_Increases df),
      Price_Change_5D = map_option (take_cells idx) (Price_Change_5D df),
      High_Delivery_Days = map_option (take_cells idx) (High_Delivery_Days df)\<rparr>"

text \<open>
  \<^verbatim>\<open>df.sort_values('Date')\<close>. Rows of one date keep their order here; the
  library's default sort promises no order among them.
\<close>

definition sort_values_Date :: "frame \<Rightarrow> frame" where
  "sort_values_Date df = take_rows (sort_key (\<lambda>i. Date df ! i) [0..<nrows df]) df"

record signal =
  signal_Date :: int
  Delivery_pct :: fval
  Previous_Avg :: fval
  signal_Volume_Multiple :: "fval option"
  signal_Delivery_to_Traded :: "fval option"

text \<open>\<^verbatim>\<open>Series.between(lo, hi)\<close> includes both ends.\<close>

definition between :: "int \<Rightarrow> int \<Rightarrow> int \<Rightarrow> bool" where
  "between lo hi d = (lo \<le> d \<and> d \<le> hi)"

text \<open>The positions of the rows a boolean mask selects.\<close>

definition window_rows :: "frame \<Rightarrow> int \<Rightarrow> int \<Rightarrow> nat list" where
  "window_rows df lo hi = filter (\<lambda>j. between lo hi (Date df ! j)) [0..<nrows df]"

definition previous_crosses :: "frame \<Rightarrow> real \<Rightarrow> int \<Rightarrow> int \<Rightarrow> nat list" where
  "previous_crosses df threshold lo hi =
     filter (\<lambda>j. between lo hi (Date df ! j) \<and> fgt (Dly_Qt_to_Traded_Qty df ! j) threshold)
       [0..<nrows df]"

text \<open>
  The loop \<^verbatim>\<open>for idx, row in df.iterrows()\<close> over the row positions still to visit,
  with the list of signals collected so far. Reading \<^verbatim>\<open>row['Delivery_to_Traded']\<close>
  raises when the frame has a \<open>Volume_Multiple\<close> column and no such column.
\<close>

fun signal_scan :: "frame \<Rightarrow> real \<Rightarrow> nat list \<Rightarrow> signal list \<Rightarrow> error + signal list" where
  "signal_scan df threshold [] signals = Inr signals"
| "signal_scan df threshold (i # rest) signals =
     (if fgt (Dly_Qt_to_Traded_Qty df ! i) threshold then
        (let lookback_date = Date df ! i - 90 in
         if length (previous_crosses df threshold lookback_date (Date df ! i)) = 1 then
           (let prev = fmean (take_cells (window_rows df lookback_date (Date df ! i))
                                (Dly_Qt_to_Traded_Qty df))
            in case Volume_Multiple df of
                 None \<Rightarrow>
                   signal_scan df threshold rest
                     (signals @ [\<lparr>signal_Date = Date df ! i,
                                  Delivery_pct = Dly_Qt_to_Traded_Qty df ! i,
                                  Previous_Avg = prev,
                                  signal_Volume_Multiple = None,
                                  signal_Delivery_to_Traded = None\<rparr>])
               | Some vm \<Rightarrow>
                   (case Delivery_to_Traded df of
                      None \<Rightarrow> Inl KeyError
                    | Some dt \<Rightarrow>
                        signal_scan df threshold rest
                          (signals @ [\<lparr>signal_Date = Date df ! i,
                                       Delivery_pct = Dly_Qt_to_Traded_Qty df ! i,
                                       Previous_Avg = prev,
                                       signal_Volume_Multiple = Some (vm ! i),
                                       signal_Delivery_to_Traded = Some (dt ! i)\<rparr>])))
         else signal_scan df threshold rest signals)
      else signal_scan df threshold rest signals)"

definition analyze_delivery_signals :: "frame \<Rightarrow> real \<Rightarrow> error + signal list" where
  "analyze_delivery_signals df threshold =
     (let sorted_df = sort_values_Date df
      in signal_scan sorted_df threshold [0..<nrows sorted_df] [])"

section \<open>Price correlation analyzer\<close>

text \<open>
  \<^verbatim>\<open>pct_change(periods)\<close> on a column of finite prices: the cell over the cell
  \<open>periods\<close> rows above, minus one; NaN on the first \<open>periods\<close> rows.
\<close>

definition pct_change :: "nat \<Rightarrow> real list \<Rightarrow> fval list" where
  "pct_change periods xs =
     map (\<lambda>i. if i < periods then NaN
              else fsub (fdiv (Num (xs ! i)) (Num (xs ! (i - periods)))) (Num 1))
         [0..<length xs]"

text \<open>\<^verbatim>\<open>df[mask][column]\<close>: the cells of the rows where the mask is true.\<close>

definition select :: "bool list \<Rightarrow> 'a list \<Rightarrow> 'a list" where
  "select flags xs = map snd (filter fst (zip flags xs))"

record price_analysis =
  correlation :: fval
  success_rate :: fval

text \<open>
  The function writes two columns into the caller's frame and returns a dictionary, or
  \<open>None\<close> when there is no close column: the model returns the frame as well.
\<close>

definition analyze_price_correlation :: "frame \<Rightarrow> real \<Rightarrow> frame \<times> price_analysis option" where
  "analyze_price_correlation df threshold =
     (case Close df of
        Some close \<Rightarrow>
          (let change = pct_change 5 close;
               df1 = df\<lparr>Price_Change_5D := Some change\<rparr>;
               high = map (\<lambda>v. fgt v threshold) (Dly_Qt_to_Traded_Qty df1);
               df2 = df1\<lparr>High_Delivery_Days := Some high\<rparr>
           in (df2, Some \<lparr>correlation = fmean (select high change),
                          success_rate = bmean (map (\<lambda>v. fgt v 0) (select high change))\<rparr>))
      | None \<Rightarrow> (df, None))"

section \<open>Daily snapshot filter\<close>

text \<open>
  A cell of the \<open>DELIV_PER\<close> column as \<^verbatim>\<open>read_csv\<close> delivers it: the placeholder
  \<^verbatim>\<open>-\<close>, the empty text, a text \<^verbatim>\<open>to_numeric\<close> reads as a number, or any other text.
\<close>

datatype deliv_cell = Placeholder | Blank | Numeric fval | Other string

text \<open>
  \<^verbatim>\<open>pd.to_numeric(col.replace(['-', ''], pd.NA), errors='coerce')\<close>: the two
  replaced texts and every unreadable text become NaN.
\<close>

fun to_numeric :: "deliv_cell \<Rightarrow> fval" where
  "to_numeric Placeholder = NaN"
| "to_numeric Blank = NaN"
| "to_numeric (Numeric v) = v"
| "to_numeric (Other s) = NaN"

record 'd snapshot_row =
  SERIES :: string
  SYMBOL :: string
  DELIV_PER :: 'd
  DATE1 :: string

text \<open>
  The alternatives of the pattern
  \<^verbatim>\<open>^(GB|GS|BE|BO|BL|W[0-9A-Z]|K[0-9A-Z]|MF|ME|TB|SG)$\<close>.
\<close>

definition unwanted_series :: "string \<Rightarrow> bool" where
  "unwanted_series s =
     (s \<in> set [''GB'', ''GS'', ''BE'', ''BO'', ''BL'', ''MF'', ''ME'', ''TB'', ''SG''] \<or>
      (case s of
         [a, b] \<Rightarrow> (a = CHR ''W'' \<or> a = CHR ''K'') \<and>
                    b \<in> set ''0123456789ABCDEFGHIJKLMNOPQRSTUVWXYZ''
       | _ \<Rightarrow> False))"

text \<open>
  \<^verbatim>\<open>str.match\<close> with the anchored pattern: \<^verbatim>\<open>^\<close> is the start of the text and
  \<^verbatim>\<open>$\<close> is its end, or the position before a line feed that ends it.
\<close>

definition str_match_unwanted :: "string \<Rightarrow> bool" where
  "str_match_unwanted s =
     (unwanted_series s \<or> (s \<noteq> [] \<and> last s = CHR 0x0A \<and> unwanted_series (butlast s)))"

text \<open>
  The dictionary built from \<^verbatim>\<open>groupby('SERIES')\<close>: a key is a series code with at
  least one row, its value the \<open>[SYMBOL, DELIV_PER]\<close> pairs of its rows in table order.
\<close>

definition grouped_by_series ::
  "fval snapshot_row list \<Rightarrow> (string \<rightharpoonup> (string \<times> fval) list)" where
  "grouped_by_series rows =
     (\<lambda>series. let grp = filter (\<lambda>r. SERIES r = series) rows
               in if grp = [] then None
                  else Some (map (\<lambda>r. (SYMBOL r, DELIV_PER r)) grp))"

text \<open>
  \<^verbatim>\<open>df['DATE1'].iloc[0]\<close> is read from the table left by the series filter and
  raises when that table has no row.
\<close>

definition load_daily_data ::
  "deliv_cell snapshot_row list \<Rightarrow> real \<Rightarrow>
     error + ((string \<rightharpoonup> (string \<times> fval) list) \<times> string)" where
  "load_daily_data tbl min_delivery =
     (let df0 = map (\<lambda>r. \<lparr>SERIES = SERIES r, SYMBOL = SYMBOL r,
                          DELIV_PER = to_numeric (DELIV_PER r), DATE1 = DATE1 r\<rparr>) tbl;
          df = filter (\<lambda>r. \<not> str_match_unwanted (SERIES r)) df0;
          high_delivery_df =
            filter (\<lambda>r. DELIV_PER r \<noteq> NaN) (filter (\<lambda>r. fgt (DELIV_PER r) min_delivery) df);
          grouped = grouped_by_series high_delivery_df
      in case df of
           [] \<Rightarrow> Inl IndexError
         | r # _ \<Rightarrow> Inr (grouped, DATE1 r))"

section \<open>Data normalizer\<close>

text \<open>
  A cell of the \<open>Date\<close> column is a text that
  \<^verbatim>\<open>to_datetime(format='%d-%b-%Y')\<close> reads as a day, or one it rejects; a cell of the
  percentage column, stripped and with its commas removed, is a text \<^verbatim>\<open>float\<close>
  reads, or one it rejects. A rejected cell makes the whole call fail with
  \<open>ValueError\<close>; no other check is made on the table.
\<close>

datatype date_cell = DateText int | NotADate string

datatype float_cell = FloatText fval | NotAFloat string

record history_table =
  raw_Date :: "date_cell list"
  raw_Dly_Qt_to_Traded_Qty :: "float_cell list"
  raw_Total_Traded_Quantity :: "int list option"
  raw_Deliverable_Qty :: "int list option"
  raw_Close :: "real list option"

fun to_datetime :: "date_cell list \<Rightarrow> error + int list" where
  "to_datetime [] = Inr []"
| "to_datetime (DateText d # cs) =
     (case to_datetime cs of Inl e \<Rightarrow> Inl e | Inr ds \<Rightarrow> Inr (d # ds))"
| "to_datetime (NotADate s # cs) = Inl ValueError"

fun astype_float :: "float_cell list \<Rightarrow> error + fval list" where
  "astype_float [] = Inr []"
| "astype_float (FloatText v # cs) =
     (case astype_float cs of Inl e \<Rightarrow> Inl e | Inr vs \<Rightarrow> Inr (v # vs))"
| "astype_float (NotAFloat s # cs) = Inl ValueError"

definition load_historical_data :: "history_table \<Rightarrow> error + frame" where
  "load_historical_data tbl =
     (case to_datetime (raw_Date tbl) of
        Inl e \<Rightarrow> Inl e
      | Inr dates \<Rightarrow>
          (case astype_float (raw_Dly_Qt_to_Traded_Qty tbl) of
             Inl e \<Rightarrow> Inl e
           | Inr pcts \<Rightarrow>
               Inr (sort_values_Date
                 \<lparr>Date = dates, Dly_Qt_to_Traded_Qty = pcts,
                  Total_Traded_Quantity = raw_Total_Traded_Quantity tbl,
                  Deliverable_Qty = raw_Deliverable_Qty tbl,
                  Close = raw_Close tbl,
                  Volume_3M_Avg = None, Volume_Ratio = None, Delivery_to_Traded = None,
                  Avg_Volume = None, Volume_Multiple = None, High_Delivery = None,
                  Consecutive_Days = None, Delivery_Change = None,
                  Increasing_Delivery = None, Consecutive_Increases = None,
                  Price_Change_5D = None, High_Delivery_Days = None\<rparr>)))"

section \<open>Example tables\<close>

text \<open>
  Five consecutive trading days with delivery percentages 70, 95, 96, 60, 97 and no
  optional column.
\<close>

definition five_days :: frame where
  "five_days =
     \<lparr>Date = [0, 1, 2, 3, 4],
      Dly_Qt_to_Traded_Qty = [Num 70, Num 95, Num 96, Num 60, Num 97],
      Total_Traded_Quantity = None, Deliverable_Qty = None, Close = None,
      Volume_3M_Avg = None, Volume_Ratio = None, Delivery_to_Traded = None,
      Avg_Volume = None, Volume_Multiple = None, High_Delivery = None,
      Consecutive_Days = None, Delivery_Change = None, Increasing_Delivery = None,
      Consecutive_Increases = None, Price_Change_5D = None, High_Delivery_Days = None\<rparr>"

text \<open>
  Three trading days one hundred calendar days apart, with quantity columns.
\<close>

definition gapped_volume :: frame where
  "gapped_volume =
     \<lparr>Date = [0, 100, 200],
      Dly_Qt_to_Traded_Qty = [Num 50, Num 50, Num 50],
      Total_Traded_Quantity = Some [10, 20, 60], Deliverable_Qty = Some [5, 10, 30],
      Close = None,
      Volume_3M_Avg = None, Volume_Ratio = None, Delivery_to_Traded = None,
      Avg_Volume = None, Volume_Multiple = None, High_Delivery = None,
      Consecutive_Days = None, Delivery_Change = None, Increasing_Delivery = None,
      Consecutive_Increases = None, Price_Change_5D = None, High_Delivery_Days = None\<rparr>"

text \<open>
  Three days of which two have no trade: one of them reports a deliverable quantity
  all the same.
\<close>

definition zero_traded :: frame where
  "zero_traded =
     \<lparr>Date = [0, 1, 2],
      Dly_Qt_to_Traded_Qty = [Num 50, Num 50, Num 50],
      Total_Traded_Quantity = Some [0, 0, 40], Deliverable_Qty = Some [5, 0, 10],
      Close = None,
      Volume_3M_Avg = None, Volume_Ratio = None, Delivery_to_Traded = None,
      Avg_Volume = None, Volume_Multiple = None, High_Delivery = None,
      Consecutive_Days = None, Delivery_Change = None, Increasing_Delivery = None,
      Consecutive_Increases = None, Price_Change_5D = None, High_Delivery_Days = None\<rparr>"

text \<open>
  Four trading days at days 0, 90, 181 and 200: the second lies exactly 90 days after
  the first, the third more than 90 days after the second.
\<close>

definition two_crossings :: frame where
  "two_crossings =
     \<lparr>Date = [0, 90, 181, 200],
      Dly_Qt_to_Traded_Qty = [Num 95, Num 96, Num 97, Num 50],
      Total_Traded_Quantity = None, Deliverable_Qty = None, Close = None,
      Volume_3M_Avg = None, Volume_Ratio = None, Delivery_to_Traded = None,
      Avg_Volume = None, Volume_Multiple = None, High_Delivery = None,
      Consecutive_Days = None, Delivery_Change = None, Increasing_Delivery = None,
      Consecutive_Increases = None, Price_Change_5D = None, High_Delivery_Days = None\<rparr>"

text \<open>Four consecutive days, the second without a delivery percentage.\<close>

definition missing_day :: frame where
  "missing_day =
     \<lparr>Date = [0, 1, 2, 3],
      Dly_Qt_to_Traded_Qty = [Num 95, NaN, Num 96, Num 50],
      Total_Traded_Quantity = None, Deliverable_Qty = None, Close = None,
      Volume_3M_Avg = None, Volume_Ratio = None, Delivery_to_Traded = None,
      Avg_Volume = None, Volume_Multiple = None, High_Delivery = None,
      Consecutive_Days = None, Delivery_Change = None, Increasing_Delivery = None,
      Consecutive_Increases = None, Price_Change_5D = None, High_Delivery_Days = None\<rparr>"

text \<open>
  Four days, all above a threshold of 90, with close prices: too short for any 5-day
  price change.
\<close>

definition short_history :: frame where
  "short_history =
     \<lparr>Date = [0, 1, 2, 3],
      Dly_Qt_to_Traded_Qty = [Num 95, Num 96, Num 97, Num 98],
      Total_Traded_Quantity = None, Deliverable_Qty = None,
      Close = Some [100, 101, 102, 103],
      Volume_3M_Avg = None, Volume_Ratio = None, Delivery_to_Traded = None,
      Avg_Volume = None, Volume_Multiple = None, High_Delivery = None,
      Consecutive_Days = None, Delivery_Change = None, Increasing_Delivery = None,
      Consecutive_Increases = None, Price_Change_5D = None, High_Delivery_Days = None\<rparr>"

text \<open>
  Seven days with close prices; days 0, 2, 5 and 6 are above a threshold of 90, and only
  days 5 and 6 have a 5-day price change (+10% and -10%).
\<close>

definition week_prices :: frame where
  "week_prices =
     \<lparr>Date = [0, 1, 2, 3, 4, 5, 6],
      Dly_Qt_to_Traded_Qty = [Num 95, Num 50, Num 95, Num 50, Num 50, Num 96, Num 97],
      Total_Traded_Quantity = None, Deliverable_Qty = None,
      Close = Some [100, 100, 100, 100, 100, 110, 90],
      Volume_3M_Avg = None, Volume_Ratio = None, Delivery_to_Traded = None,
      Avg_Volume = None, Volume_Multiple = None, High_Delivery = None,
      Consecutive_Days = None, Delivery_Change = None, Increasing_Delivery = None,
      Consecutive_Increases = None, Price_Change_5D = None, High_Delivery_Days = None\<rparr>"

text \<open>
  A snapshot of five symbols: one without data, one government security, and three
  equities with 92.5, 88 and 95 percent.
\<close>

definition snapshot :: "deliv_cell snapshot_row list" where
  "snapshot =
     [\<lparr>SERIES = ''EQ'', SYMBOL = ''AAA'', DELIV_PER = Placeholder, DATE1 = ''03-Nov-2025''\<rparr>,
      \<lparr>SERIES = ''EQ'', SYMBOL = ''BBB'', DELIV_PER = Numeric (Num (185 / 2)),
        DATE1 = ''03-Nov-2025''\<rparr>,
      \<lparr>SERIES = ''GS'', SYMBOL = ''CCC'', DELIV_PER = Numeric (Num 99), DATE1 = ''03-Nov-2025''\<rparr>,
      \<lparr>SERIES = ''EQ'', SYMBOL = ''DDD'', DELIV_PER = Numeric (Num 88), DATE1 = ''03-Nov-2025''\<rparr>,
      \<lparr>SERIES = ''EQ'', SYMBOL = ''EEE'', DELIV_PER = Numeric (Num 95), DATE1 = ''03-Nov-2025''\<rparr>]"

text \<open>A history file that has its header line and no data row.\<close>

definition empty_history :: history_table where
  "empty_history =
     \<lparr>raw_Date = [], raw_Dly_Qt_to_Traded_Qty = [], raw_Total_Traded_Quantity = None,
      raw_Deliverable_Qty = None, raw_Close = None\<rparr>"


section \<open>Properties of the column operations\<close>

lemma length_shift: "length (shift xs) = length xs"
  by (simp add: shift_def)

lemma length_ne_shift: "length (ne_shift xs) = length xs"
  by (simp add: ne_shift_def length_shift)

lemma shift_nth_0: "0 < length xs \<Longrightarrow> shift xs ! 0 = None"
  by (simp add: shift_def)

lemma shift_nth_Suc: "Suc i < length xs \<Longrightarrow> shift xs ! Suc i = Some (xs ! i)"
  by (simp add: shift_def)

lemma ne_shift_nth_0: "0 < length xs \<Longrightarrow> ne_shift xs ! 0"
  by (simp add: ne_shift_def length_shift shift_nth_0)

lemma ne_shift_nth_Suc:
  "Suc i < length xs \<Longrightarrow> ne_shift xs ! Suc i = (xs ! Suc i \<noteq> xs ! i)"
  by (simp add: ne_shift_def length_shift shift_nth_Suc)

lemma length_cumsum: "length (cumsum bs) = length bs"
  by (simp add: cumsum_def)

lemma cumsum_nth:
  "i < length bs \<Longrightarrow> cumsum bs ! i = length (filter (\<lambda>b. b) (take (Suc i) bs))"
  by (simp add: cumsum_def)

text \<open>The running sum grows by one exactly at the rows that hold \<open>True\<close>.\<close>

lemma cumsum_Suc:
  "Suc i < length bs \<Longrightarrow> cumsum bs ! Suc i = cumsum bs ! i + (if bs ! Suc i then 1 else 0)"
  by (simp add: cumsum_nth take_Suc_conv_app_nth [of "Suc i"])

lemma cumsum_mono:
  "i < length bs \<Longrightarrow> j \<le> i \<Longrightarrow> cumsum bs ! j \<le> cumsum bs ! i"
proof (induction i)
  case 0
  then show ?case by simp
next
  case (Suc i)
  show ?case
  proof (cases "j = Suc i")
    case True
    then show ?thesis by simp
  next
    case False
    with Suc.prems have "j \<le> i" "i < length bs" by simp_all
    with Suc.IH have "cumsum bs ! j \<le> cumsum bs ! i" by simp
    with Suc.prems(1) show ?thesis by (simp add: cumsum_Suc)
  qed
qed

lemma length_cumcount: "length (cumcount ks) = length ks"
  by (simp add: cumcount_def)

lemma cumcount_nth:
  "i < length ks \<Longrightarrow> cumcount ks ! i = length (filter (\<lambda>j. ks ! j = ks ! i) [0..<i])"
  by (simp add: cumcount_def)

lemma length_streaks: "length (streaks s) = length s"
  by (simp add: streaks_def length_cumcount length_cumsum length_ne_shift)

lemma streaks_first: "0 < length s \<Longrightarrow> streaks s ! 0 = 1"
  by (simp add: streaks_def length_cumcount length_cumsum length_ne_shift cumcount_nth)

text \<open>
  A flip of the flag opens a group whose key is larger than every earlier key, so the
  row is the first of its group.
\<close>

lemma streaks_change:
  assumes "Suc i < length s" and "s ! Suc i \<noteq> s ! i"
  shows "streaks s ! Suc i = 1"
proof -
  let ?k = "cumsum (ne_shift s)"
  have len: "Suc i < length (ne_shift s)" using assms(1) by (simp add: length_ne_shift)
  have step: "?k ! Suc i = ?k ! i + 1"
    using len assms by (simp add: cumsum_Suc ne_shift_nth_Suc)
  have "\<forall>j \<in> set [0..<Suc i]. ?k ! j \<noteq> ?k ! Suc i"
  proof
    fix j assume "j \<in> set [0..<Suc i]"
    then have "j \<le> i" by auto
    moreover have "i < length (ne_shift s)" using len by simp
    ultimately have "?k ! j \<le> ?k ! i" by (rule cumsum_mono [rotated])
    with step show "?k ! j \<noteq> ?k ! Suc i" by simp
  qed
  then have "filter (\<lambda>j. ?k ! j = ?k ! Suc i) [0..<Suc i] = []"
    by (simp only: filter_empty_conv)
  then show ?thesis
    using len by (simp add: streaks_def length_cumcount length_cumsum cumcount_nth)
qed

text \<open>Without a flip the row joins the group of the row above, one place later.\<close>

lemma streaks_same:
  assumes "Suc i < length s" and "s ! Suc i = s ! i"
  shows "streaks s ! Suc i = streaks s ! i + 1"
proof -
  let ?k = "cumsum (ne_shift s)"
  have len: "Suc i < length (ne_shift s)" using assms(1) by (simp add: length_ne_shift)
  have step: "?k ! Suc i = ?k ! i"
    using len assms by (simp add: cumsum_Suc ne_shift_nth_Suc)
  have "filter (\<lambda>j. ?k ! j = ?k ! Suc i) [0..<Suc i]
      = filter (\<lambda>j. ?k ! j = ?k ! i) [0..<i] @ [i]"
    by (simp add: step)
  then show ?thesis
    using len by (simp add: streaks_def length_cumcount length_cumsum cumcount_nth)
qed

lemma streaks_law:
  "i < length s \<Longrightarrow>
   streaks s ! i = (if i = 0 \<or> s ! i \<noteq> s ! (i - 1) then 1 else streaks s ! (i - 1) + 1)"
  by (cases i) (simp_all add: streaks_first streaks_change streaks_same)

lemma length_diff: "length (diff xs) = length xs"
  by (simp add: diff_def length_shift)

lemma diff_nth_0: "0 < length xs \<Longrightarrow> diff xs ! 0 = NaN"
  by (simp add: diff_def length_shift shift_nth_0)

lemma diff_nth_Suc: "Suc i < length xs \<Longrightarrow> diff xs ! Suc i = fsub (xs ! Suc i) (xs ! i)"
  by (simp add: diff_def length_shift shift_nth_Suc)

section \<open>Pattern detector: streak laws\<close>

text \<open>
  C2. After the pattern detector has run, row \<open>i\<close> of the high-delivery streak column
  is 1 when \<open>i = 0\<close> or the high-delivery flag differs from the row above, and one
  more than the row above otherwise. The same law holds for the increase streak column
  over the flag \<open>Delivery_Change > 0\<close>, where the change is the difference to the row
  above, is NaN on the first row, and a NaN change (first row included) gives the flag
  \<open>False\<close>. The detector never reads the dates, so the law holds for every frame, the
  date-ascending ones included.
\<close>

theorem pattern_streak_laws:
  assumes "i < length (Dly_Qt_to_Traded_Qty df)"
  shows "\<exists>high days change inc incs.
     High_Delivery (detect_delivery_patterns df threshold) = Some high \<and>
     Consecutive_Days (detect_delivery_patterns df threshold) = Some days \<and>
     Delivery_Change (detect_delivery_patterns df threshold) = Some change \<and>
     Increasing_Delivery (detect_delivery_patterns df threshold) = Some inc \<and>
     Consecutive_Increases (detect_delivery_patterns df threshold) = Some incs \<and>
     high ! i = fgt (Dly_Qt_to_Traded_Qty df ! i) threshold \<and>
     days ! i = (if i = 0 \<or> high ! i \<noteq> high ! (i - 1) then 1 else days ! (i - 1) + 1) \<and>
     change ! i = (if i = 0 then NaN
                   else fsub (Dly_Qt_to_Traded_Qty df ! i) (Dly_Qt_to_Traded_Qty df ! (i - 1))) \<and>
     inc ! i = fgt (change ! i) 0 \<and>
     (i = 0 \<or> change ! i = NaN \<longrightarrow> \<not> inc ! i) \<and>
     incs ! i = (if i = 0 \<or> inc ! i \<noteq> inc ! (i - 1) then 1 else incs ! (i - 1) + 1)"
proof -
  let ?p = "Dly_Qt_to_Traded_Qty df"
  let ?high = "map (\<lambda>v. fgt v threshold) ?p"
  let ?change = "diff ?p"
  let ?inc = "map (\<lambda>v. fgt v 0) ?change"
  have c: "?change ! i = (if i = 0 then NaN else fsub (?p ! i) (?p ! (i - 1)))"
    using assms by (cases i) (simp_all add: diff_nth_0 diff_nth_Suc)
  have i: "?inc ! i = fgt (?change ! i) 0"
    using assms by (simp add: length_diff)
  have n: "i = 0 \<or> ?change ! i = NaN \<longrightarrow> \<not> ?inc ! i"
  proof
    assume "i = 0 \<or> ?change ! i = NaN"
    with c have "?change ! i = NaN" by auto
    with assms show "\<not> ?inc ! i" by (simp add: length_diff)
  qed
  have d: "streaks ?high ! i
      = (if i = 0 \<or> ?high ! i \<noteq> ?high ! (i - 1) then 1 else streaks ?high ! (i - 1) + 1)"
    using assms by (intro streaks_law) simp
  have e: "streaks ?inc ! i
      = (if i = 0 \<or> ?inc ! i \<noteq> ?inc ! (i - 1) then 1 else streaks ?inc ! (i - 1) + 1)"
    using assms by (intro streaks_law) (simp add: length_diff)
  have h: "?high ! i = fgt (?p ! i) threshold"
    using assms by simp
  have sel: "High_Delivery (detect_delivery_patterns df threshold) = Some ?high"
    "Consecutive_Days (detect_delivery_patterns df threshold) = Some (streaks ?high)"
    "Delivery_Change (detect_delivery_patterns df threshold) = Some ?change"
    "Increasing_Delivery (detect_delivery_patterns df threshold) = Some ?inc"
    "Consecutive_Increases (detect_delivery_patterns df threshold) = Some (streaks ?inc)"
    by (simp_all add: detect_delivery_patterns_def Let_def)
  from sel h d c i n e show ?thesis
    by (intro exI conjI)
qed

text \<open>
  The law at the third of the five example days, with threshold 90: the flags are
  F, T, T, F, T and both streak columns read 1, 1, 2, 1, 1.
\<close>

theorem pattern_streak_laws_witness:
  "2 < length (Dly_Qt_to_Traded_Qty five_days) \<and>
   High_Delivery (detect_delivery_patterns five_days 90)
     = Some [False, True, True, False, True] \<and>
   Consecutive_Days (detect_delivery_patterns five_days 90) = Some [1, 1, 2, 1, 1] \<and>
   Increasing_Delivery (detect_delivery_patterns five_days 90)
     = Some [False, True, True, False, True] \<and>
   Consecutive_Increases (detect_delivery_patterns five_days 90) = Some [1, 1, 2, 1, 1] \<and>
   (\<exists>high days change inc incs.
     High_Delivery (detect_delivery_patterns five_days 90) = Some high \<and>
     Consecutive_Days (detect_delivery_patterns five_days 90) = Some days \<and>
     Delivery_Change (detect_delivery_patterns five_days 90) = Some change \<and>
     Increasing_Delivery (detect_delivery_patterns five_days 90) = Some inc \<and>
     Consecutive_Increases (detect_delivery_patterns five_days 90) = Some incs \<and>
     days ! 2 = days ! 1 + 1 \<and> incs ! 2 = incs ! 1 + 1)"
proof -
  have len: "2 < length (Dly_Qt_to_Traded_Qty five_days)"
    by (simp add: five_days_def)
  have a: "High_Delivery (detect_delivery_patterns five_days 90)
      = Some [False, True, True, False, True]"
    by code_simp
  have b: "Consecutive_Days (detect_delivery_patterns five_days 90) = Some [1, 1, 2, 1, 1]"
    by code_simp
  have c: "Increasing_Delivery (detect_delivery_patterns five_days 90)
      = Some [False, True, True, False, True]"
    by code_simp
  have d: "Consecutive_Increases (detect_delivery_patterns five_days 90) = Some [1, 1, 2, 1, 1]"
    by code_simp
  show ?thesis
    using pattern_streak_laws [OF len, of 90] len a b c d by auto
qed

section \<open>Pattern detector: idempotence\<close>

text \<open>
  C9. Running the pattern detector on its own output gives the same frame as the first
  run: the same \<open>High_Delivery\<close>, \<open>Consecutive_Days\<close> and \<open>Consecutive_Increases\<close>
  columns, and every other column as well.
\<close>

theorem pattern_detector_idempotent:
  "detect_delivery_patterns (detect_delivery_patterns df threshold) threshold
     = detect_delivery_patterns df threshold"
  by (simp add: detect_delivery_patterns_def Let_def)

section \<open>Means of numeric cells\<close>

lemma fsum_Num: "fsum (map Num xs) = Num (sum_list xs)"
  by (induction xs) simp_all

lemma filter_Num: "filter (\<lambda>v. v \<noteq> NaN) (map Num xs) = map Num xs"
  by (induction xs) simp_all

lemma fmean_Num:
  "xs \<noteq> [] \<Longrightarrow> fmean (map Num xs) = Num (sum_list xs / real (length xs))"
  by (simp add: fmean_def filter_Num fsum_Num)

lemma slice_conv_nth:
  "b \<le> length xs \<Longrightarrow> drop a (take b xs) = map (\<lambda>j. xs ! j) [a..<b]"
  by (rule nth_equalityI) auto

lemma sum_list_slice:
  "b \<le> length xs \<Longrightarrow> sum_list (map f (drop a (take b xs))) = (\<Sum>j = a..<b. f (xs ! j))"
  by (simp add: slice_conv_nth interv_sum_list_conv_sum_set_nat comp_def)

lemma sum_list_all:
  "sum_list (map f xs) = (\<Sum>j<length xs. f (xs ! j))"
  using sum_list_slice [of "length xs" xs f 0] by (simp add: lessThan_atLeast0)

section \<open>Volume analyzer\<close>

lemma length_rolling_mean: "length (rolling_mean w m xs) = length xs"
  by (simp add: rolling_mean_def)

lemma rolling_mean_nth:
  "i < length xs \<Longrightarrow>
   rolling_mean w m xs ! i =
     (let obs = filter (\<lambda>v. v \<noteq> NaN) (drop (Suc i - w) (take (Suc i) xs))
      in if length obs < m then NaN else fdiv (fsum obs) (Num (real (length obs))))"
  by (simp add: rolling_mean_def)

text \<open>
  On an integer column every cell of the window is a number, so the rolling mean is
  the plain mean of the rows the window holds.
\<close>

lemma rolling_mean_of_ints:
  assumes "i < length qs"
  shows "rolling_mean 90 1 (of_ints qs) ! i
     = Num ((\<Sum>j = Suc i - min (Suc i) 90..<Suc i. real_of_int (qs ! j))
             / real (min (Suc i) 90))"
proof -
  define rs where "rs = map real_of_int (drop (Suc i - 90) (take (Suc i) qs))"
  have w: "drop (Suc i - 90) (take (Suc i) (of_ints qs)) = map Num rs"
    by (simp add: rs_def of_ints_def drop_map take_map)
  have l: "length rs = min (Suc i) 90" using assms by (auto simp: rs_def)
  have s: "sum_list rs = (\<Sum>j = Suc i - 90..<Suc i. real_of_int (qs ! j))"
    unfolding rs_def using assms by (intro sum_list_slice) simp
  have a: "Suc i - min (Suc i) 90 = Suc i - 90" by auto
  have i: "i < length (of_ints qs)" using assms by (simp add: of_ints_def)
  have "rolling_mean 90 1 (of_ints qs) ! i
      = (if length rs < 1 then NaN else fdiv (fsum (map Num rs)) (Num (real (length rs))))"
    by (simp only: rolling_mean_nth [OF i] w filter_Num Let_def length_map)
  also have "\<dots> = Num (sum_list rs / real (length rs))"
    using l by (simp add: fsum_Num)
  finally show ?thesis by (simp only: l s a)
qed

text \<open>
  C8. When both quantity columns are present, \<open>Volume_3M_Avg[i]\<close> is the mean traded
  quantity of the last \<open>min (i + 1) 90\<close> rows (the rows \<open>i + 1 - min (i + 1) 90\<close> up
  to \<open>i\<close>, whatever their dates), and it is a number, never NaN; \<open>Avg_Volume[i]\<close> is
  the mean traded quantity of the whole series, the same on every row; and
  \<open>Volume_Multiple[i]\<close> is the traded quantity of row \<open>i\<close> divided by it.
\<close>

theorem volume_columns:
  assumes "rectangular df"
    and "Total_Traded_Quantity df = Some traded"
    and "Deliverable_Qty df = Some deliverable"
    and "i < nrows df"
  shows "\<exists>avg3m avg mult.
     Volume_3M_Avg (add_volume_analysis df) = Some avg3m \<and>
     Avg_Volume (add_volume_analysis df) = Some avg \<and>
     Volume_Multiple (add_volume_analysis df) = Some mult \<and>
     avg3m ! i = Num ((\<Sum>j = Suc i - min (Suc i) 90..<Suc i. real_of_int (traded ! j))
                       / real (min (Suc i) 90)) \<and>
     avg3m ! i \<noteq> NaN \<and>
     avg ! i = Num ((\<Sum>j<nrows df. real_of_int (traded ! j)) / real (nrows df)) \<and>
     mult ! i = fdiv (Num (real_of_int (traded ! i))) (avg ! i)"
proof -
  have len: "length traded = nrows df" "length deliverable = nrows df"
    using assms(1-3) by (simp_all add: rectangular_def Let_def col_ok_def)
  have i: "i < length traded" using assms(4) len by simp
  have r: "rolling_mean 90 1 (of_ints traded) ! i
     = Num ((\<Sum>j = Suc i - min (Suc i) 90..<Suc i. real_of_int (traded ! j))
             / real (min (Suc i) 90))"
    using i by (rule rolling_mean_of_ints)
  have ne: "map real_of_int traded \<noteq> []" using i by auto
  have m: "fmean (of_ints traded)
     = Num ((\<Sum>j<nrows df. real_of_int (traded ! j)) / real (nrows df))"
    using fmean_Num [OF ne] sum_list_all [of real_of_int traded] len
    by (simp add: of_ints_def comp_def)
  have q: "of_ints traded ! i = Num (real_of_int (traded ! i))"
    using i by (simp add: of_ints_def)
  have lo: "length (of_ints traded) = nrows df" using len by (simp add: of_ints_def)
  show ?thesis
    using assms(2,3,4) r m q lo
    by (simp add: add_volume_analysis_def Let_def nrows_def)
qed

text \<open>
  The third row of the example lies 200 calendar days after the first, and its rolling
  mean still covers all three rows: (10 + 20 + 60) / 3 = 30.
\<close>

theorem volume_columns_witness:
  "rectangular gapped_volume \<and>
   Date gapped_volume = [0, 100, 200] \<and>
   Total_Traded_Quantity gapped_volume = Some [10, 20, 60] \<and>
   (\<exists>avg3m avg mult.
     Volume_3M_Avg (add_volume_analysis gapped_volume) = Some avg3m \<and>
     Avg_Volume (add_volume_analysis gapped_volume) = Some avg \<and>
     Volume_Multiple (add_volume_analysis gapped_volume) = Some mult \<and>
     avg3m ! 2 = Num 30 \<and> avg ! 2 = Num 30 \<and> mult ! 2 = Num 2)"
proof -
  have r: "rectangular gapped_volume" by code_simp
  have t: "Total_Traded_Quantity gapped_volume = Some [10, 20, 60]"
    by (simp add: gapped_volume_def)
  have d: "Deliverable_Qty gapped_volume = Some [5, 10, 30]"
    by (simp add: gapped_volume_def)
  have n: "nrows gapped_volume = 3" by (simp add: gapped_volume_def nrows_def)
  have i: "2 < nrows gapped_volume" by (simp add: n)
  have s1: "(\<Sum>j = 0..<3. real_of_int ([10, 20, 60] ! j)) = 90"
    by (simp add: eval_nat_numeral)
  have s2: "(\<Sum>j<3. real_of_int ([10, 20, 60] ! j)) = 90"
    by (simp add: eval_nat_numeral lessThan_Suc)
  have "Date gapped_volume = [0, 100, 200]" by (simp add: gapped_volume_def)
  with volume_columns [OF r t d i] r t n s1 s2 show ?thesis
    by (auto simp: eval_nat_numeral)
qed

text \<open>
  C7 as the specification states it fails: on a row with traded quantity 0 and a
  positive deliverable quantity the cell is plus infinity, which is not the
  missing-value marker.
\<close>

theorem zero_traded_gives_infinity:
  "Total_Traded_Quantity zero_traded = Some [0, 0, 40] \<and>
   Deliverable_Qty zero_traded = Some [5, 0, 10] \<and>
   (\<exists>dt. Delivery_to_Traded (add_volume_analysis zero_traded) = Some dt \<and>
      dt ! 0 = PInf \<and> dt ! 0 \<noteq> NaN)"
  by (simp add: add_volume_analysis_def Let_def of_ints_def zero_traded_def)

text \<open>
  C7, amended. When both quantity columns are present the computation of
  \<open>Delivery_to_Traded\<close> never fails. On a row with a non-zero traded quantity the
  cell is deliverable / traded \<times> 100. On a row with traded quantity 0 the cell is NaN
  when the deliverable quantity is 0 as well, and an infinity with the sign of the
  deliverable quantity otherwise.
\<close>

theorem delivery_to_traded_cells:
  assumes "rectangular df"
    and "Total_Traded_Quantity df = Some traded"
    and "Deliverable_Qty df = Some deliverable"
    and "i < nrows df"
  shows "\<exists>dt.
     Delivery_to_Traded (add_volume_analysis df) = Some dt \<and>
     dt ! i =
       (if traded ! i \<noteq> 0
        then Num (real_of_int (deliverable ! i) / real_of_int (traded ! i) * 100)
        else if deliverable ! i = 0 then NaN
        else if 0 < deliverable ! i then PInf else NInf)"
proof -
  have len: "length traded = nrows df" "length deliverable = nrows df"
    using assms(1-3) by (simp_all add: rectangular_def Let_def col_ok_def)
  show ?thesis
    using assms(2,3,4) len
    by (simp add: add_volume_analysis_def Let_def of_ints_def)
qed

theorem delivery_to_traded_cells_witness:
  "rectangular zero_traded \<and>
   Total_Traded_Quantity zero_traded = Some [0, 0, 40] \<and>
   Deliverable_Qty zero_traded = Some [5, 0, 10] \<and>
   Delivery_to_Traded (add_volume_analysis zero_traded) = Some [PInf, NaN, Num 25]"
proof -
  have r: "rectangular zero_traded" by code_simp
  have t: "Total_Traded_Quantity zero_traded = Some [0, 0, 40]" by (simp add: zero_traded_def)
  have d: "Deliverable_Qty zero_traded = Some [5, 0, 10]" by (simp add: zero_traded_def)
  have n: "nrows zero_traded = 3" by (simp add: zero_traded_def nrows_def)
  have l: "length (the (Delivery_to_Traded (add_volume_analysis zero_traded))) = 3"
    by (simp add: add_volume_analysis_def Let_def of_ints_def zero_traded_def)
  from delivery_to_traded_cells [OF r t d, of 0] delivery_to_traded_cells [OF r t d, of 1]
    delivery_to_traded_cells [OF r t d, of 2] n l
  have "Delivery_to_Traded (add_volume_analysis zero_traded) = Some [PInf, NaN, Num 25]"
    by (auto simp: length_Suc_conv numeral_3_eq_3)
  with r t d show ?thesis by simp
qed

section \<open>Signal detector\<close>

lemma take_cells_all: "length c = n \<Longrightarrow> take_cells [0..<n] c = c"
  by (auto simp: take_cells_def intro: nth_equalityI)

lemma take_cells_col: "col_ok n c \<Longrightarrow> map_option (take_cells [0..<n]) c = c"
  by (cases c) (simp_all add: col_ok_def take_cells_all)

lemma take_rows_all:
  assumes "rectangular df"
  shows "take_rows [0..<nrows df] df = df"
proof -
  have d: "take_cells [0..<nrows df] (Date df) = Date df"
    by (simp add: take_cells_all nrows_def)
  have p: "take_cells [0..<nrows df] (Dly_Qt_to_Traded_Qty df) = Dly_Qt_to_Traded_Qty df"
    using assms by (simp add: take_cells_all rectangular_def Let_def)
  show ?thesis
    using assms d p
    by (simp add: take_rows_def rectangular_def Let_def take_cells_col)
qed

text \<open>Sorting a frame whose dates already ascend changes nothing.\<close>

lemma sort_values_sorted:
  assumes "rectangular df" and "sorted (Date df)"
  shows "sort_values_Date df = df"
proof -
  have "map (\<lambda>i. Date df ! i) [0..<nrows df] = Date df"
    by (simp add: nrows_def map_nth)
  with assms(2) have "sort_key (\<lambda>i. Date df ! i) [0..<nrows df] = [0..<nrows df]"
    by (intro sort_key_id_if_sorted) simp
  with assms(1) show ?thesis
    by (simp add: sort_values_Date_def take_rows_all)
qed

text \<open>
  The loop in closed form: it appends one signal for each visited row that passes both
  tests, in the order of the visit, and fails only when such a row exists and the
  \<open>Volume_Multiple\<close> column comes without the \<open>Delivery_to_Traded\<close> column.
\<close>

lemma signal_scan_result:
  fixes df :: frame and threshold :: real
  defines "emit \<equiv> \<lambda>i. fgt (Dly_Qt_to_Traded_Qty df ! i) threshold \<and>
      length (previous_crosses df threshold (Date df ! i - 90) (Date df ! i)) = 1"
    and "mk \<equiv> \<lambda>i. \<lparr>signal_Date = Date df ! i,
      Delivery_pct = Dly_Qt_to_Traded_Qty df ! i,
      Previous_Avg = fmean (take_cells (window_rows df (Date df ! i - 90) (Date df ! i))
                             (Dly_Qt_to_Traded_Qty df)),
      signal_Volume_Multiple = map_option (\<lambda>vm. vm ! i) (Volume_Multiple df),
      signal_Delivery_to_Traded =
        (if Volume_Multiple df = None then None
         else map_option (\<lambda>dt. dt ! i) (Delivery_to_Traded df))\<rparr>"
  shows "signal_scan df threshold idx acc =
     (if Volume_Multiple df \<noteq> None \<and> Delivery_to_Traded df = None \<and> filter emit idx \<noteq> []
      then Inl KeyError
      else Inr (acc @ map mk (filter emit idx)))"
proof (induction idx arbitrary: acc)
  case Nil
  show ?case by simp
next
  case (Cons i rest)
  show ?case
  proof (cases "emit i")
    case False
    then show ?thesis
      using Cons.IH [of acc] by (auto simp: emit_def Let_def)
  next
    case True
    then have c: "fgt (Dly_Qt_to_Traded_Qty df ! i) threshold"
      "length (previous_crosses df threshold (Date df ! i - 90) (Date df ! i)) = 1"
      by (simp_all add: emit_def)
    show ?thesis
    proof (cases "Volume_Multiple df")
      case None
      then show ?thesis
        using True c Cons.IH [of "acc @ [mk i]"]
        by (simp add: Let_def mk_def)
    next
      case (Some vm)
      show ?thesis
      proof (cases "Delivery_to_Traded df")
        case None
        then show ?thesis using True c Some by (simp add: Let_def)
      next
        case (Some dt)
        then show ?thesis
          using True c \<open>Volume_Multiple df = Some vm\<close> Cons.IH [of "acc @ [mk i]"]
          by (simp add: Let_def mk_def)
      qed
    qed
  qed
qed

text \<open>
  C1. For a rectangular frame whose dates ascend (and in which a \<open>Volume_Multiple\<close>
  column comes with its \<open>Delivery_to_Traded\<close> column), the signal detector returns
  one signal for each row \<open>i\<close>, in row order, whose delivery percentage exceeds the
  threshold and for which the number of rows \<open>j\<close> with
  \<open>date[i] - 90 \<le> date[j] \<le> date[i]\<close> and a delivery percentage above the threshold
  is exactly 1, and for no other row. The signal carries the row's date and percentage,
  and its \<open>Previous Avg\<close> is the mean of the delivery percentages of all rows in that
  window: the mean skips missing cells, and when every cell of the window is a number
  it is their sum over their count.
\<close>

theorem fresh_crossing_signals:
  assumes "rectangular df" and "sorted (Date df)"
    and "Volume_Multiple df = None \<or> Delivery_to_Traded df \<noteq> None"
  shows "\<exists>sigs.
     analyze_delivery_signals df threshold = Inr sigs \<and>
     map (\<lambda>s. (signal_Date s, Delivery_pct s, Previous_Avg s)) sigs =
       map (\<lambda>i. (Date df ! i, Dly_Qt_to_Traded_Qty df ! i,
                 fmean (map (\<lambda>j. Dly_Qt_to_Traded_Qty df ! j)
                   (filter (\<lambda>j. Date df ! i - 90 \<le> Date df ! j \<and> Date df ! j \<le> Date df ! i)
                      [0..<nrows df]))))
         (filter (\<lambda>i. fgt (Dly_Qt_to_Traded_Qty df ! i) threshold \<and>
                   length (filter (\<lambda>j. Date df ! i - 90 \<le> Date df ! j \<and>
                                       Date df ! j \<le> Date df ! i \<and>
                                       fgt (Dly_Qt_to_Traded_Qty df ! j) threshold)
                             [0..<nrows df]) = 1)
            [0..<nrows df]) \<and>
     (\<forall>i rs. i < nrows df \<and>
        map (\<lambda>j. Dly_Qt_to_Traded_Qty df ! j)
          (filter (\<lambda>j. Date df ! i - 90 \<le> Date df ! j \<and> Date df ! j \<le> Date df ! i)
             [0..<nrows df]) = map Num rs \<longrightarrow>
        fmean (map (\<lambda>j. Dly_Qt_to_Traded_Qty df ! j)
          (filter (\<lambda>j. Date df ! i - 90 \<le> Date df ! j \<and> Date df ! j \<le> Date df ! i)
             [0..<nrows df])) = Num (sum_list rs / real (length rs)))"
proof -
  have s: "sort_values_Date df = df"
    using assms(1,2) by (rule sort_values_sorted)
  have m: "\<forall>i rs. i < nrows df \<and>
        map (\<lambda>j. Dly_Qt_to_Traded_Qty df ! j)
          (filter (\<lambda>j. Date df ! i - 90 \<le> Date df ! j \<and> Date df ! j \<le> Date df ! i)
             [0..<nrows df]) = map Num rs \<longrightarrow>
        fmean (map (\<lambda>j. Dly_Qt_to_Traded_Qty df ! j)
          (filter (\<lambda>j. Date df ! i - 90 \<le> Date df ! j \<and> Date df ! j \<le> Date df ! i)
             [0..<nrows df])) = Num (sum_list rs / real (length rs))"
  proof (intro allI impI)
    fix i rs
    let ?w = "filter (\<lambda>j. Date df ! i - 90 \<le> Date df ! j \<and> Date df ! j \<le> Date df ! i)
                [0..<nrows df]"
    assume a: "i < nrows df \<and> map (\<lambda>j. Dly_Qt_to_Traded_Qty df ! j) ?w = map Num rs"
    then have "i \<in> set ?w" by simp
    then have "?w \<noteq> []" by (metis empty_iff empty_set)
    with a have "rs \<noteq> []" by auto
    with a show "fmean (map (\<lambda>j. Dly_Qt_to_Traded_Qty df ! j) ?w)
        = Num (sum_list rs / real (length rs))"
      by (simp add: fmean_Num)
  qed
  have k: "\<not> (Volume_Multiple df \<noteq> None \<and> Delivery_to_Traded df = None \<and> B)" for B
    using assms(3) by auto
  let ?sigs = "map
      (\<lambda>i. \<lparr>signal_Date = Date df ! i,
        Delivery_pct = Dly_Qt_to_Traded_Qty df ! i,
        Previous_Avg = fmean (take_cells (window_rows df (Date df ! i - 90) (Date df ! i))
                               (Dly_Qt_to_Traded_Qty df)),
        signal_Volume_Multiple = map_option (\<lambda>vm. vm ! i) (Volume_Multiple df),
        signal_Delivery_to_Traded =
          (if Volume_Multiple df = None then None
           else map_option (\<lambda>dt. dt ! i) (Delivery_to_Traded df))\<rparr>)
      (filter (\<lambda>i. fgt (Dly_Qt_to_Traded_Qty df ! i) threshold \<and>
          length (previous_crosses df threshold (Date df ! i - 90) (Date df ! i)) = 1)
        [0..<nrows df])"
  have r: "analyze_delivery_signals df threshold = Inr ?sigs"
    unfolding analyze_delivery_signals_def Let_def s signal_scan_result
    by (simp only: k if_False append_Nil)
  have c: "map (\<lambda>s. (signal_Date s, Delivery_pct s, Previous_Avg s)) ?sigs =
       map (\<lambda>i. (Date df ! i, Dly_Qt_to_Traded_Qty df ! i,
                 fmean (map (\<lambda>j. Dly_Qt_to_Traded_Qty df ! j)
                   (filter (\<lambda>j. Date df ! i - 90 \<le> Date df ! j \<and> Date df ! j \<le> Date df ! i)
                      [0..<nrows df]))))
         (filter (\<lambda>i. fgt (Dly_Qt_to_Traded_Qty df ! i) threshold \<and>
                   length (filter (\<lambda>j. Date df ! i - 90 \<le> Date df ! j \<and>
                                       Date df ! j \<le> Date df ! i \<and>
                                       fgt (Dly_Qt_to_Traded_Qty df ! j) threshold)
                             [0..<nrows df]) = 1)
            [0..<nrows df])"
    by (simp add: previous_crosses_def window_rows_def between_def take_cells_def
         comp_def conj_assoc)
  from r c m show ?thesis by (intro exI [of _ ?sigs] conjI)
qed

text \<open>
  In the example the day-90 row has the day-0 crossing in its window (both ends of the
  window count), so it gives no signal; the day-181 row is alone in its window.
\<close>

theorem fresh_crossing_signals_witness:
  "rectangular two_crossings \<and> sorted (Date two_crossings) \<and>
   Volume_Multiple two_crossings = None \<and>
   analyze_delivery_signals two_crossings 90 =
     Inr [\<lparr>signal_Date = 0, Delivery_pct = Num 95, Previous_Avg = Num 95,
            signal_Volume_Multiple = None, signal_Delivery_to_Traded = None\<rparr>,
          \<lparr>signal_Date = 181, Delivery_pct = Num 97, Previous_Avg = Num 97,
            signal_Volume_Multiple = None, signal_Delivery_to_Traded = None\<rparr>] \<and>
   map (\<lambda>i. (Date two_crossings ! i, Dly_Qt_to_Traded_Qty two_crossings ! i,
             fmean (map (\<lambda>j. Dly_Qt_to_Traded_Qty two_crossings ! j)
               (filter (\<lambda>j. Date two_crossings ! i - 90 \<le> Date two_crossings ! j \<and>
                             Date two_crossings ! j \<le> Date two_crossings ! i)
                  [0..<nrows two_crossings]))))
     (filter (\<lambda>i. fgt (Dly_Qt_to_Traded_Qty two_crossings ! i) 90 \<and>
               length (filter (\<lambda>j. Date two_crossings ! i - 90 \<le> Date two_crossings ! j \<and>
                                   Date two_crossings ! j \<le> Date two_crossings ! i \<and>
                                   fgt (Dly_Qt_to_Traded_Qty two_crossings ! j) 90)
                         [0..<nrows two_crossings]) = 1)
        [0..<nrows two_crossings])
     = [(0, Num 95, Num 95), (181, Num 97, Num 97)]"
proof -
  have r: "rectangular two_crossings" by code_simp
  have s: "sorted (Date two_crossings)" by (simp add: two_crossings_def)
  have v: "Volume_Multiple two_crossings = None" by (simp add: two_crossings_def)
  have e: "analyze_delivery_signals two_crossings 90 =
     Inr [\<lparr>signal_Date = 0, Delivery_pct = Num 95, Previous_Avg = Num 95,
            signal_Volume_Multiple = None, signal_Delivery_to_Traded = None\<rparr>,
          \<lparr>signal_Date = 181, Delivery_pct = Num 97, Previous_Avg = Num 97,
            signal_Volume_Multiple = None, signal_Delivery_to_Traded = None\<rparr>]"
    by code_simp
  from fresh_crossing_signals [OF r s disjI1 [OF v], of 90] e r s v
  show ?thesis by auto
qed

section \<open>Rows without a delivery percentage\<close>

text \<open>Every signal the loop appends belongs to a row above the threshold.\<close>

lemma signal_scan_crossings:
  assumes "signal_scan df threshold idx acc = Inr sigs"
    and "\<forall>s \<in> set acc. fgt (Delivery_pct s) threshold"
  shows "\<forall>s \<in> set sigs. fgt (Delivery_pct s) threshold"
  using assms unfolding signal_scan_result
  by (auto split: if_splits)

text \<open>
  C10. A row \<open>i\<close> whose delivery percentage is missing (NaN) has \<open>High_Delivery\<close>
  false, whatever the threshold. It does not extend a high-delivery streak (after a
  high-delivery row its streak counter is back at 1) and does not start one (a
  high-delivery row right after it has counter 1). No lookback window counts it among
  the rows above the threshold, the detector's loop adds no signal when it visits the
  row, and no signal returned carries a missing delivery percentage.
\<close>

theorem missing_percentage_never_high:
  assumes "i < length (Dly_Qt_to_Traded_Qty df)"
    and "Dly_Qt_to_Traded_Qty df ! i = NaN"
  shows "(\<exists>high days.
      High_Delivery (detect_delivery_patterns df threshold) = Some high \<and>
      Consecutive_Days (detect_delivery_patterns df threshold) = Some days \<and>
      \<not> high ! i \<and>
      (0 < i \<and> high ! (i - 1) \<longrightarrow> days ! i = 1) \<and>
      (Suc i < length (Dly_Qt_to_Traded_Qty df) \<and> high ! Suc i \<longrightarrow> days ! Suc i = 1)) \<and>
    (\<forall>lo hi. i \<notin> set (previous_crosses df threshold lo hi)) \<and>
    (\<forall>rest acc. signal_scan df threshold (i # rest) acc = signal_scan df threshold rest acc) \<and>
    (\<forall>sigs. analyze_delivery_signals df threshold = Inr sigs \<longrightarrow>
       (\<forall>s \<in> set sigs. Delivery_pct s \<noteq> NaN))"
proof -
  let ?p = "Dly_Qt_to_Traded_Qty df"
  let ?high = "map (\<lambda>v. fgt v threshold) ?p"
  have h: "\<not> ?high ! i" using assms by simp
  have a: "0 < i \<and> ?high ! (i - 1) \<longrightarrow> streaks ?high ! i = 1"
  proof
    assume t: "0 < i \<and> ?high ! (i - 1)"
    then obtain k where k: "i = Suc k" by (cases i) auto
    with t h assms(1) have "?high ! Suc k \<noteq> ?high ! k" "Suc k < length ?high" by auto
    then have "streaks ?high ! Suc k = 1" by (intro streaks_change)
    with k show "streaks ?high ! i = 1" by simp
  qed
  have b: "Suc i < length ?p \<and> ?high ! Suc i \<longrightarrow> streaks ?high ! Suc i = 1"
  proof
    assume t: "Suc i < length ?p \<and> ?high ! Suc i"
    with h have "?high ! Suc i \<noteq> ?high ! i" "Suc i < length ?high" by auto
    then show "streaks ?high ! Suc i = 1" by (intro streaks_change)
  qed
  have c: "\<forall>lo hi. i \<notin> set (previous_crosses df threshold lo hi)"
    using assms(2) by (simp add: previous_crosses_def)
  have d: "\<forall>rest acc. signal_scan df threshold (i # rest) acc = signal_scan df threshold rest acc"
    using assms(2) by simp
  have e: "\<forall>sigs. analyze_delivery_signals df threshold = Inr sigs \<longrightarrow>
       (\<forall>s \<in> set sigs. Delivery_pct s \<noteq> NaN)"
  proof (intro allI impI ballI)
    fix sigs s
    assume r: "analyze_delivery_signals df threshold = Inr sigs" and s: "s \<in> set sigs"
    from r have "\<forall>s \<in> set sigs. fgt (Delivery_pct s) threshold"
      unfolding analyze_delivery_signals_def Let_def
      by (rule signal_scan_crossings) simp
    with s have "fgt (Delivery_pct s) threshold" by blast
    then show "Delivery_pct s \<noteq> NaN" by auto
  qed
  have f: "\<exists>high days.
      High_Delivery (detect_delivery_patterns df threshold) = Some high \<and>
      Consecutive_Days (detect_delivery_patterns df threshold) = Some days \<and>
      \<not> high ! i \<and>
      (0 < i \<and> high ! (i - 1) \<longrightarrow> days ! i = 1) \<and>
      (Suc i < length (Dly_Qt_to_Traded_Qty df) \<and> high ! Suc i \<longrightarrow> days ! Suc i = 1)"
    unfolding detect_delivery_patterns_def Let_def
    using h a b by simp
  from f c d e show ?thesis by (intro conjI)
qed

theorem missing_percentage_never_high_witness:
  "1 < length (Dly_Qt_to_Traded_Qty missing_day) \<and>
   Dly_Qt_to_Traded_Qty missing_day ! 1 = NaN \<and>
   High_Delivery (detect_delivery_patterns missing_day 90) = Some [True, False, True, False] \<and>
   Consecutive_Days (detect_delivery_patterns missing_day 90) = Some [1, 1, 1, 1] \<and>
   1 \<notin> set (previous_crosses missing_day 90 (- 88) 2) \<and>
   previous_crosses missing_day 90 (- 88) 2 = [0, 2] \<and>
   analyze_delivery_signals missing_day 90 =
     Inr [\<lparr>signal_Date = 0, Delivery_pct = Num 95, Previous_Avg = Num 95,
            signal_Volume_Multiple = None, signal_Delivery_to_Traded = None\<rparr>] \<and>
   signal_scan missing_day 90 [1] [] = signal_scan missing_day 90 [] []"
proof -
  have l: "1 < length (Dly_Qt_to_Traded_Qty missing_day)" by (simp add: missing_day_def)
  have n: "Dly_Qt_to_Traded_Qty missing_day ! 1 = NaN" by (simp add: missing_day_def)
  have h: "High_Delivery (detect_delivery_patterns missing_day 90)
      = Some [True, False, True, False]"
    by code_simp
  have d: "Consecutive_Days (detect_delivery_patterns missing_day 90) = Some [1, 1, 1, 1]"
    by code_simp
  have p: "previous_crosses missing_day 90 (- 88) 2 = [0, 2]" by code_simp
  have a: "analyze_delivery_signals missing_day 90 =
     Inr [\<lparr>signal_Date = 0, Delivery_pct = Num 95, Previous_Avg = Num 95,
            signal_Volume_Multiple = None, signal_Delivery_to_Traded = None\<rparr>]"
    by code_simp
  from missing_percentage_never_high [OF l n, of 90]
  have "1 \<notin> set (previous_crosses missing_day 90 (- 88) 2)"
    and "signal_scan missing_day 90 [1] [] = signal_scan missing_day 90 [] []"
    by blast+
  with l n h d p a show ?thesis by (intro conjI)
qed

section \<open>Price correlation analyzer\<close>

lemma select_Cons:
  "select (b # bs) (x # xs) = (if b then x # select bs xs else select bs xs)"
  by (simp add: select_def)

text \<open>Selecting by a mask keeps the cells of the rows whose flag is true, in row order.\<close>

lemma select_conv_nth:
  "length flags = length xs \<Longrightarrow>
   select flags xs = map (\<lambda>i. xs ! i) (filter (\<lambda>i. flags ! i) [0..<length xs])"
proof (induction flags xs rule: list_induct2)
  case Nil
  show ?case by (simp add: select_def)
next
  case (Cons b bs x xs)
  have u: "[0..<length (x # xs)] = 0 # map Suc [0..<length xs]"
    by (simp add: upt_conv_Cons map_Suc_upt del: upt_Suc)
  show ?case
    unfolding u select_Cons using Cons.IH
    by (simp add: filter_map comp_def)
qed

lemma fmean_all_NaN: "\<forall>v \<in> set xs. v = NaN \<Longrightarrow> fmean xs = NaN"
proof -
  assume "\<forall>v \<in> set xs. v = NaN"
  then have "filter (\<lambda>v. v \<noteq> NaN) xs = []" by (simp add: filter_empty_conv)
  then show ?thesis by (simp add: fmean_def)
qed

lemma no_gain_all_NaN:
  "\<forall>v \<in> set xs. v = NaN \<Longrightarrow> filter (\<lambda>b. b) (map (\<lambda>v. fgt v 0) xs) = []"
  by (induction xs) simp_all

lemma length_pct_change: "length (pct_change k xs) = length xs"
  by (simp add: pct_change_def)

text \<open>
  C5, amended. When a close-price column is present, let the selection be the
  \<open>Price_Change_5D\<close> cells of the rows whose delivery percentage exceeds the
  threshold (NaN on the first five rows, close over the close five rows earlier minus
  one elsewhere). \<open>correlation\<close> is the mean of the selection with missing cells
  skipped. When the selection is empty, both results are NaN. When it is not empty and
  every cell of it is NaN, \<open>correlation\<close> is NaN and \<open>success_rate\<close> is 0. Whenever it
  is not empty, \<open>success_rate\<close> is the number of its cells above 0 over the number of
  all its cells, the missing ones included; and when all its cells are numbers,
  \<open>correlation\<close> is their sum over their count.
\<close>

theorem price_correlation_result:
  assumes "rectangular df" and "Close df = Some close"
  shows "\<exists>pa sel.
     snd (analyze_price_correlation df threshold) = Some pa \<and>
     sel = map (\<lambda>i. if i < 5 then NaN
                     else fsub (fdiv (Num (close ! i)) (Num (close ! (i - 5)))) (Num 1))
             (filter (\<lambda>i. fgt (Dly_Qt_to_Traded_Qty df ! i) threshold) [0..<nrows df]) \<and>
     correlation pa = fmean sel \<and>
     (sel = [] \<longrightarrow> correlation pa = NaN \<and> success_rate pa = NaN) \<and>
     (sel \<noteq> [] \<and> (\<forall>v \<in> set sel. v = NaN) \<longrightarrow>
        correlation pa = NaN \<and> success_rate pa = Num 0) \<and>
     (sel \<noteq> [] \<longrightarrow>
        success_rate pa
          = Num (real (length (filter (\<lambda>v. fgt v 0) sel)) / real (length sel))) \<and>
     (\<forall>rs. rs \<noteq> [] \<and> sel = map Num rs \<longrightarrow>
        correlation pa = Num (sum_list rs / real (length rs)))"
proof -
  let ?p = "Dly_Qt_to_Traded_Qty df"
  let ?high = "map (\<lambda>v. fgt v threshold) ?p"
  let ?chg = "pct_change 5 close"
  let ?sel = "map (\<lambda>i. if i < 5 then NaN
                     else fsub (fdiv (Num (close ! i)) (Num (close ! (i - 5)))) (Num 1))
             (filter (\<lambda>i. fgt (?p ! i) threshold) [0..<nrows df])"
  let ?pa = "\<lparr>correlation = fmean (select ?high ?chg),
              success_rate = bmean (map (\<lambda>v. fgt v 0) (select ?high ?chg))\<rparr>"
  have len: "length ?p = nrows df" "length close = nrows df"
    using assms by (simp_all add: rectangular_def Let_def col_ok_def)
  have r: "snd (analyze_price_correlation df threshold) = Some ?pa"
    using assms(2) by (simp add: analyze_price_correlation_def Let_def)
  have "select ?high ?chg
      = map (\<lambda>i. ?chg ! i) (filter (\<lambda>i. ?high ! i) [0..<length ?chg])"
    using len by (intro select_conv_nth) (simp add: length_pct_change)
  also have "filter (\<lambda>i. ?high ! i) [0..<length ?chg]
      = filter (\<lambda>i. fgt (?p ! i) threshold) [0..<nrows df]"
    using len by (intro filter_cong) (simp_all add: length_pct_change)
  also have "map (\<lambda>i. ?chg ! i) (filter (\<lambda>i. fgt (?p ! i) threshold) [0..<nrows df]) = ?sel"
    using len by (intro map_cong refl) (simp add: pct_change_def)
  finally have s: "select ?high ?chg = ?sel" .
  have c: "correlation ?pa = fmean ?sel" by (simp add: s)
  have e: "?sel = [] \<longrightarrow> correlation ?pa = NaN \<and> success_rate ?pa = NaN"
    by (simp add: s fmean_def bmean_def)
  have n: "?sel \<noteq> [] \<and> (\<forall>v \<in> set ?sel. v = NaN) \<longrightarrow>
        correlation ?pa = NaN \<and> success_rate ?pa = Num 0"
  proof
    assume a: "?sel \<noteq> [] \<and> (\<forall>v \<in> set ?sel. v = NaN)"
    then have all: "\<forall>v \<in> set ?sel. v = NaN" ..
    have "fmean ?sel = NaN" using all by (rule fmean_all_NaN)
    moreover have "filter (\<lambda>b. b) (map (\<lambda>v. fgt v 0) ?sel) = []"
      using all by (rule no_gain_all_NaN)
    ultimately have "fmean ?sel = NaN" "filter (\<lambda>b. b) (map (\<lambda>v. fgt v 0) ?sel) = []"
      by blast+
    with a show "correlation ?pa = NaN \<and> success_rate ?pa = Num 0"
      by (simp add: s bmean_def)
  qed
  have f: "?sel \<noteq> [] \<longrightarrow>
        success_rate ?pa
          = Num (real (length (filter (\<lambda>v. fgt v 0) ?sel)) / real (length ?sel))"
    by (simp add: s bmean_def filter_map comp_def)
  have m: "\<forall>rs. rs \<noteq> [] \<and> ?sel = map Num rs \<longrightarrow>
        correlation ?pa = Num (sum_list rs / real (length rs))"
    by (simp add: s fmean_Num)
  from r c e n f m show ?thesis
    by (intro exI [of _ ?pa] exI [of _ ?sel] conjI refl)
qed

text \<open>
  C5 as the specification states it fails on four high-delivery days with close prices
  and no defined 5-day change: \<open>correlation\<close> is NaN, and \<open>success_rate\<close> is 0, not
  NaN.
\<close>

theorem undefined_changes_give_zero_rate:
  "Close short_history = Some [100, 101, 102, 103] \<and>
   Price_Change_5D (fst (analyze_price_correlation short_history 90))
     = Some [NaN, NaN, NaN, NaN] \<and>
   High_Delivery_Days (fst (analyze_price_correlation short_history 90))
     = Some [True, True, True, True] \<and>
   snd (analyze_price_correlation short_history 90)
     = Some \<lparr>correlation = NaN, success_rate = Num 0\<rparr>"
  by code_simp

text \<open>
  In the seven-day example the selection is NaN, NaN, +0.1, -0.1: the mean of the two
  numbers is 0 and one cell of four is positive.
\<close>

theorem price_correlation_result_witness:
  "rectangular week_prices \<and>
   Close week_prices = Some [100, 100, 100, 100, 100, 110, 90] \<and>
   snd (analyze_price_correlation week_prices 90)
     = Some \<lparr>correlation = Num 0, success_rate = Num (1 / 4)\<rparr> \<and>
   fmean (map (\<lambda>i. if i < 5 then NaN
             else fsub (fdiv (Num ([100, 100, 100, 100, 100, 110, 90] ! i))
                         (Num ([100, 100, 100, 100, 100, 110, 90] ! (i - 5)))) (Num 1))
     (filter (\<lambda>i. fgt (Dly_Qt_to_Traded_Qty week_prices ! i) 90) [0..<nrows week_prices]))
     = Num 0"
proof -
  have r: "rectangular week_prices" by code_simp
  have c: "Close week_prices = Some [100, 100, 100, 100, 100, 110, 90]"
    by (simp add: week_prices_def)
  have e: "snd (analyze_price_correlation week_prices 90)
     = Some \<lparr>correlation = Num 0, success_rate = Num (1 / 4)\<rparr>"
    by code_simp
  from price_correlation_result [OF r c, of 90]
  obtain pa sel where
    p: "snd (analyze_price_correlation week_prices 90) = Some pa"
    and s: "sel = map (\<lambda>i. if i < 5 then NaN
             else fsub (fdiv (Num ([100, 100, 100, 100, 100, 110, 90] ! i))
                         (Num ([100, 100, 100, 100, 100, 110, 90] ! (i - 5)))) (Num 1))
       (filter (\<lambda>i. fgt (Dly_Qt_to_Traded_Qty week_prices ! i) 90) [0..<nrows week_prices])"
    and m: "correlation pa = fmean sel"
    by blast
  from p e have "correlation pa = Num 0" by auto
  with m s r c e show ?thesis by simp
qed

section \<open>Daily snapshot filter\<close>

lemma str_match_exact: "unwanted_series s \<Longrightarrow> str_match_unwanted s"
  by (simp add: str_match_unwanted_def)

lemma grouped_by_series_Some:
  assumes "grouped_by_series rows series = Some pairs"
  shows "pairs = map (\<lambda>r. (SYMBOL r, DELIV_PER r)) (filter (\<lambda>r. SERIES r = series) rows)"
    and "filter (\<lambda>r. SERIES r = series) rows \<noteq> []"
  using assms by (auto simp: grouped_by_series_def Let_def split: if_splits)

text \<open>A returned dictionary is the grouping of the rows that pass all three filters.\<close>

lemma load_daily_data_grouped:
  assumes "load_daily_data tbl min_delivery = Inr (grouped, date)"
  shows "grouped = grouped_by_series
     (filter (\<lambda>r. DELIV_PER r \<noteq> NaN)
        (filter (\<lambda>r. fgt (DELIV_PER r) min_delivery)
           (filter (\<lambda>r. \<not> str_match_unwanted (SERIES r))
              (map (\<lambda>r. \<lparr>SERIES = SERIES r, SYMBOL = SYMBOL r,
                            DELIV_PER = to_numeric (DELIV_PER r), DATE1 = DATE1 r\<rparr>) tbl))))"
proof -
  define df where "df = filter (\<lambda>r. \<not> str_match_unwanted (SERIES r))
              (map (\<lambda>r. \<lparr>SERIES = SERIES r, SYMBOL = SYMBOL r,
                            DELIV_PER = to_numeric (DELIV_PER r), DATE1 = DATE1 r\<rparr>) tbl)"
  define G where "G = grouped_by_series
     (filter (\<lambda>r. DELIV_PER r \<noteq> NaN) (filter (\<lambda>r. fgt (DELIV_PER r) min_delivery) df))"
  have "load_daily_data tbl min_delivery
      = (case df of [] \<Rightarrow> Inl IndexError | r # _ \<Rightarrow> Inr (G, DATE1 r))"
    by (simp only: load_daily_data_def Let_def df_def G_def)
  with assms have "G = grouped" by (cases df) simp_all
  then show ?thesis by (simp only: G_def df_def)
qed

text \<open>
  C4. Whenever the daily snapshot filter returns, every series code that is a key of its
  dictionary is outside the exclusion set (it matches none of the alternatives of the
  pattern), and every pair under it comes from a row of the table with that series code
  and has a delivery percentage that is not missing and not less than or equal to the
  minimum: it is above the minimum.
\<close>

theorem snapshot_rows_filtered:
  assumes "load_daily_data tbl min_delivery = Inr (grouped, date)"
    and "grouped series = Some pairs"
  shows "\<not> unwanted_series series \<and> \<not> str_match_unwanted series \<and> pairs \<noteq> [] \<and>
    (\<forall>p \<in> set pairs.
       snd p \<noteq> NaN \<and> snd p \<noteq> NInf \<and> fgt (snd p) min_delivery \<and>
       (\<forall>v. snd p = Num v \<longrightarrow> min_delivery < v) \<and>
       (\<exists>r \<in> set tbl. SERIES r = series \<and> SYMBOL r = fst p \<and>
          to_numeric (DELIV_PER r) = snd p))"
proof -
  let ?df0 = "map (\<lambda>r. \<lparr>SERIES = SERIES r, SYMBOL = SYMBOL r,
                          DELIV_PER = to_numeric (DELIV_PER r), DATE1 = DATE1 r\<rparr>) tbl"
  let ?hd = "filter (\<lambda>r. DELIV_PER r \<noteq> NaN)
        (filter (\<lambda>r. fgt (DELIV_PER r) min_delivery)
           (filter (\<lambda>r. \<not> str_match_unwanted (SERIES r)) ?df0))"
  let ?grp = "filter (\<lambda>r. SERIES r = series) ?hd"
  have g: "grouped_by_series ?hd series = Some pairs"
    using assms load_daily_data_grouped by blast
  have p: "pairs = map (\<lambda>r. (SYMBOL r, DELIV_PER r)) ?grp" and ne: "?grp \<noteq> []"
    using grouped_by_series_Some [OF g] by blast+
  from ne obtain r where "r \<in> set ?grp" by (meson last_in_set)
  then have m: "\<not> str_match_unwanted series" by auto
  then have u: "\<not> unwanted_series series" using str_match_exact by blast
  have a: "\<forall>p \<in> set pairs.
       snd p \<noteq> NaN \<and> snd p \<noteq> NInf \<and> fgt (snd p) min_delivery \<and>
       (\<forall>v. snd p = Num v \<longrightarrow> min_delivery < v) \<and>
       (\<exists>r \<in> set tbl. SERIES r = series \<and> SYMBOL r = fst p \<and>
          to_numeric (DELIV_PER r) = snd p)"
  proof
    fix q assume "q \<in> set pairs"
    with p obtain r where r: "r \<in> set ?grp" and q: "q = (SYMBOL r, DELIV_PER r)" by auto
    from r have f: "DELIV_PER r \<noteq> NaN" "fgt (DELIV_PER r) min_delivery" "SERIES r = series"
      and "r \<in> set ?df0" by auto
    then obtain r0 where r0: "r0 \<in> set tbl" "SERIES r0 = SERIES r" "SYMBOL r0 = SYMBOL r"
      "to_numeric (DELIV_PER r0) = DELIV_PER r" by auto
    from f(2) have "DELIV_PER r \<noteq> NInf" "\<forall>v. DELIV_PER r = Num v \<longrightarrow> min_delivery < v"
      by auto
    with f r0 q show "snd q \<noteq> NaN \<and> snd q \<noteq> NInf \<and> fgt (snd q) min_delivery \<and>
       (\<forall>v. snd q = Num v \<longrightarrow> min_delivery < v) \<and>
       (\<exists>r \<in> set tbl. SERIES r = series \<and> SYMBOL r = fst q \<and>
          to_numeric (DELIV_PER r) = snd q)"
      by auto
  qed
  from ne p have "pairs \<noteq> []" by simp
  with u m a show ?thesis by blast
qed

text \<open>
  C3, amended. Whenever the daily snapshot filter returns, its dictionary sends a series
  code to the (symbol, delivery percentage) pairs of the table rows that pass the
  exclusion filter and the minimum filter and carry that code, in the order in which
  the rows stand in the table, and has no entry for a code without such a row. The
  filter does not sort; the display code of \<^verbatim>\<open>daily_analysis\<close> sorts each list
  afterwards.
\<close>

theorem snapshot_rows_in_table_order:
  assumes "load_daily_data tbl min_delivery = Inr (grouped, date)"
  shows "grouped series =
     (let kept = filter (\<lambda>r. \<not> str_match_unwanted (SERIES r) \<and>
                             fgt (to_numeric (DELIV_PER r)) min_delivery \<and>
                             SERIES r = series) tbl
      in if kept = [] then None
         else Some (map (\<lambda>r. (SYMBOL r, to_numeric (DELIV_PER r))) kept))"
proof -
  have n: "(fgt v min_delivery \<and> v \<noteq> NaN) = fgt v min_delivery" for v
    by (cases v) simp_all
  show ?thesis
    unfolding load_daily_data_grouped [OF assms] grouped_by_series_def Let_def
    by (simp add: filter_map comp_def n)
qed

theorem snapshot_rows_in_table_order_witness:
  "(\<exists>grouped. load_daily_data snapshot 90 = Inr (grouped, ''03-Nov-2025'') \<and>
      grouped ''EQ'' = Some [(''BBB'', Num (185 / 2)), (''EEE'', Num 95)] \<and>
      grouped ''GS'' = None)"
proof -
  have e: "load_daily_data snapshot 90 = Inr (fst (projr (load_daily_data snapshot 90)),
      ''03-Nov-2025'')"
    by (simp add: load_daily_data_def Let_def snapshot_def str_match_unwanted_def
        unwanted_series_def)
  have a: "(let kept = filter (\<lambda>r. \<not> str_match_unwanted (SERIES r) \<and>
                             fgt (to_numeric (DELIV_PER r)) 90 \<and>
                             SERIES r = ''EQ'') snapshot
      in if kept = [] then None
         else Some (map (\<lambda>r. (SYMBOL r, to_numeric (DELIV_PER r))) kept))
     = Some [(''BBB'', Num (185 / 2)), (''EEE'', Num 95)]"
    by (simp add: snapshot_def str_match_unwanted_def unwanted_series_def)
  have b: "(let kept = filter (\<lambda>r. \<not> str_match_unwanted (SERIES r) \<and>
                             fgt (to_numeric (DELIV_PER r)) 90 \<and>
                             SERIES r = ''GS'') snapshot
      in if kept = [] then None
         else Some (map (\<lambda>r. (SYMBOL r, to_numeric (DELIV_PER r))) kept))
     = None"
    by (simp add: snapshot_def str_match_unwanted_def unwanted_series_def)
  from snapshot_rows_in_table_order [OF e, of "''EQ''"]
    snapshot_rows_in_table_order [OF e, of "''GS''"] a b e
  show ?thesis by (intro exI [of _ "fst (projr (load_daily_data snapshot 90))"]) simp
qed

text \<open>
  C3 as the specification states it fails on the example snapshot: the list returned
  for \<open>EQ\<close> has 92.5 before 95, which is ascending.
\<close>

theorem snapshot_rows_not_sorted:
  "(\<exists>grouped date. load_daily_data snapshot 90 = Inr (grouped, date) \<and>
      grouped ''EQ'' = Some [(''BBB'', Num (185 / 2)), (''EEE'', Num 95)]) \<and>
   (185 / 2 :: real) < 95"
  by (simp add: load_daily_data_def Let_def snapshot_def str_match_unwanted_def
      unwanted_series_def grouped_by_series_def)

theorem snapshot_rows_filtered_witness:
  "(\<exists>grouped. load_daily_data snapshot 90 = Inr (grouped, ''03-Nov-2025'') \<and>
      grouped ''EQ'' = Some [(''BBB'', Num (185 / 2)), (''EEE'', Num 95)]) \<and>
   \<not> unwanted_series ''EQ'' \<and> unwanted_series ''GS'' \<and>
   fgt (Num (185 / 2)) 90 \<and> fgt (Num 95) 90"
proof -
  have e: "load_daily_data snapshot 90 = Inr (fst (projr (load_daily_data snapshot 90)),
      ''03-Nov-2025'')"
    by (simp add: load_daily_data_def Let_def snapshot_def str_match_unwanted_def
        unwanted_series_def)
  have g: "fst (projr (load_daily_data snapshot 90)) ''EQ''
      = Some [(''BBB'', Num (185 / 2)), (''EEE'', Num 95)]"
    by (simp add: load_daily_data_def Let_def snapshot_def str_match_unwanted_def
        unwanted_series_def grouped_by_series_def)
  have u: "unwanted_series ''GS''" by (simp add: unwanted_series_def)
  from snapshot_rows_filtered [OF e g] e g u
  show ?thesis by auto
qed

section \<open>Data normalizer\<close>

text \<open>
  C6, amended. For a table with no row the normalizer does not fail: it returns the
  frame with no row.
\<close>

theorem empty_table_is_returned:
  assumes "raw_Date tbl = []" and "raw_Dly_Qt_to_Traded_Qty tbl = []"
  shows "\<exists>df. load_historical_data tbl = Inr df \<and> nrows df = 0 \<and>
     Date df = [] \<and> Dly_Qt_to_Traded_Qty df = []"
  using assms
  by (simp add: load_historical_data_def sort_values_Date_def take_rows_def take_cells_def
      nrows_def)

theorem empty_table_is_returned_witness:
  "raw_Date empty_history = [] \<and> raw_Dly_Qt_to_Traded_Qty empty_history = [] \<and>
   (\<exists>df. load_historical_data empty_history = Inr df \<and> nrows df = 0 \<and>
     Date df = [] \<and> Dly_Qt_to_Traded_Qty df = [])"
proof -
  have a: "raw_Date empty_history = []" and b: "raw_Dly_Qt_to_Traded_Qty empty_history = []"
    by (simp_all add: empty_history_def)
  from empty_table_is_returned [OF a b] a b show ?thesis by (intro conjI)
qed

text \<open>
  C6 as the specification states it fails on the header-only file: the result is a
  frame, not an error.
\<close>

theorem empty_table_raises_nothing:
  "load_historical_data empty_history =
     Inr \<lparr>Date = [], Dly_Qt_to_Traded_Qty = [],
          Total_Traded_Quantity = None, Deliverable_Qty = None, Close = None,
          Volume_3M_Avg = None, Volume_Ratio = None, Delivery_to_Traded = None,
          Avg_Volume = None, Volume_Multiple = None, High_Delivery = None,
          Consecutive_Days = None, Delivery_Change = None, Increasing_Delivery = None,
          Consecutive_Increases = None, Price_Change_5D = None, High_Delivery_Days = None\<rparr>"
  by code_simp

end
